theory Spec2Isabelle
  imports Complex_Main
begin

section \<open>Data model\<close>

text \<open>
  The engine computes with the C++ type \<open>float\<close>. Here a \<open>float\<close> is a \<^typ>\<open>real\<close>:
  arithmetic is exact, \<open>cos\<close> and \<open>sin\<close> are the mathematical functions, and a float
  literal is the rational it is written as, with one exception: the threshold \<open>0.001f\<close>
  of \<open>isOverlap\<close> is the exact value of that float, since a scale component can be equal
  to it. (The threshold \<open>0.0001f\<close> of \<open>getPointInLocalSpace\<close> and the rational \<open>0.0001\<close>
  have the same floats above them.) The real-valued functions and the program agree
  wherever the program's arithmetic is exact. The theorems below are about comparisons
  and about computations of that kind; laws that hold of the program only up to rounding
  need the error analysis of float arithmetic and are not stated.
\<close>

text \<open>\<open>struct Vec3\<close> (Common.h).\<close>

record Vec3 =
  x :: real
  y :: real
  z :: real

text \<open>\<open>struct Material\<close> (Common.h): four RGBA arrays and the shininess.\<close>

record Material =
  ambient :: "real list"
  diffuse :: "real list"
  specular :: "real list"
  emission :: "real list"
  shininess :: real

text \<open>
  A \<open>std::function\<close> callback is opaque code. It is represented by a name for the stored
  callable; an empty \<open>std::function\<close> (\<open>nullptr\<close>) is \<open>None\<close>.
\<close>

type_synonym UpdateCallback = nat
type_synonym InteractCallback = nat

text \<open>
  \<open>class GameObject\<close> (GameObject.h), the fields of the base class. The raw pointer
  \<open>parent\<close> is the owning ancestor or \<open>nullptr\<close>; following it from any object reaches a
  root after finitely many steps (the scene is a tree, built by \<open>Container::addChild\<close>),
  so the object is modelled together with its chain of ancestors.
\<close>

datatype GameObject = GameObject
  (position: Vec3) (rotation: Vec3) (scale: Vec3) (material: Material)
  (parent: "GameObject option")
  (updateAction: "UpdateCallback option") (interactAction: "InteractCallback option")
  (castsShadow: bool)

text \<open>\<open>class CollisionBox : public GameObject\<close> with its three dimensions.\<close>

datatype CollisionBox = CollisionBox
  (base: GameObject) (width: real) (height: real) (depth: real)

text \<open>
  The scene graph seen from above: a \<open>Container\<close> owns an ordered vector of children,
  every other subclass of \<open>GameObject\<close> is a leaf. \<open>dynamic_cast<Container*>\<close> is the
  case distinction on \<open>Node\<close>.
\<close>

datatype LeafKind =
    Cube
  | Cylinder
  | Plane
  | CollisionBoxKind real real real
  | ModelKind
  | Text3DKind string
  | PointLightKind

datatype Node =
    Leaf LeafKind GameObject
  | Container GameObject "Node list"

text \<open>
  \<open>class Camera\<close> (Camera.h): position and the two view angles in degrees. Its fields
  \<open>x\<close>, \<open>y\<close>, \<open>z\<close> are \<open>cam_x\<close>, \<open>cam_y\<close>, \<open>cam_z\<close> here, the plain names being those
  of \<open>Vec3\<close>.
\<close>

datatype Camera = Camera
  (cam_x: real) (cam_y: real) (cam_z: real) (yaw: real) (pitch: real)

text \<open>
  What \<open>interact()\<close> does is to call stored handlers; one call of the handler \<open>h\<close> with
  the argument \<open>this = obj\<close> is recorded as \<open>Invocation h obj\<close>.
\<close>

datatype Invocation = Invocation (handler: InteractCallback) (receiver: GameObject)

section \<open>GameObject.cpp\<close>

text \<open>The constant \<open>(float)(M_PI / 180.0f)\<close>.\<close>

definition deg2rad :: real where
  "deg2rad = pi / 180"

text \<open>The setters of \<open>GameObject\<close>.\<close>

definition setPosition :: "GameObject \<Rightarrow> real \<Rightarrow> real \<Rightarrow> real \<Rightarrow> GameObject" where
  "setPosition obj a b c =
     GameObject \<lparr>x = a, y = b, z = c\<rparr> (rotation obj) (scale obj) (material obj) (parent obj)
       (updateAction obj) (interactAction obj) (castsShadow obj)"

definition setRotation :: "GameObject \<Rightarrow> real \<Rightarrow> real \<Rightarrow> real \<Rightarrow> GameObject" where
  "setRotation obj a b c =
     GameObject (position obj) \<lparr>x = a, y = b, z = c\<rparr> (scale obj) (material obj) (parent obj)
       (updateAction obj) (interactAction obj) (castsShadow obj)"

definition setScale :: "GameObject \<Rightarrow> real \<Rightarrow> real \<Rightarrow> real \<Rightarrow> GameObject" where
  "setScale obj a b c =
     GameObject (position obj) (rotation obj) \<lparr>x = a, y = b, z = c\<rparr> (material obj) (parent obj)
       (updateAction obj) (interactAction obj) (castsShadow obj)"

definition setMaterial :: "GameObject \<Rightarrow> Material \<Rightarrow> GameObject" where
  "setMaterial obj m =
     GameObject (position obj) (rotation obj) (scale obj) m (parent obj)
       (updateAction obj) (interactAction obj) (castsShadow obj)"

definition setCastsShadow :: "GameObject \<Rightarrow> bool \<Rightarrow> GameObject" where
  "setCastsShadow obj b =
     GameObject (position obj) (rotation obj) (scale obj) (material obj) (parent obj)
       (updateAction obj) (interactAction obj) b"

definition setParent :: "GameObject \<Rightarrow> GameObject option \<Rightarrow> GameObject" where
  "setParent obj p =
     GameObject (position obj) (rotation obj) (scale obj) (material obj) p
       (updateAction obj) (interactAction obj) (castsShadow obj)"

text \<open>
  \<open>GameObject::interact\<close>: the object's own handler if it has one, otherwise the call
  is passed to the parent; with neither, nothing happens. The result is the list of
  handler calls made.
\<close>

fun interact :: "GameObject \<Rightarrow> Invocation list" where
  "interact (GameObject pos rot sc m par ua ia cs) =
     (case ia of
        Some h \<Rightarrow> [Invocation h (GameObject pos rot sc m par ua ia cs)]
      | None \<Rightarrow> (case par of Some q \<Rightarrow> interact q | None \<Rightarrow> []))"

text \<open>\<open>applyRotation\<close>: Euler rotation about X, then Y, then Z.\<close>

definition applyRotation :: "Vec3 \<Rightarrow> Vec3 \<Rightarrow> Vec3" where
  "applyRotation v rotDeg =
    (let radX = x rotDeg * deg2rad;
         radY = y rotDeg * deg2rad;
         radZ = z rotDeg * deg2rad;
         x0 = x v; y0 = y v; z0 = z v;
         y1 = y0 * cos radX - z0 * sin radX;
         z1 = y0 * sin radX + z0 * cos radX;
         x1 = x0;
         x2 = x1 * cos radY + z1 * sin radY;
         z2 = - x1 * sin radY + z1 * cos radY;
         y2 = y1;
         x3 = x2 * cos radZ - y2 * sin radZ;
         y3 = x2 * sin radZ + y2 * cos radZ;
         z3 = z2
     in \<lparr>x = x3, y = y3, z = z3\<rparr>)"

text \<open>\<open>applyInverseRotation\<close>: about Z, then Y, then X, with the negated angles.\<close>

definition applyInverseRotation :: "Vec3 \<Rightarrow> Vec3 \<Rightarrow> Vec3" where
  "applyInverseRotation v rotDeg =
    (let radX = - x rotDeg * deg2rad;
         radY = - y rotDeg * deg2rad;
         radZ = - z rotDeg * deg2rad;
         x0 = x v; y0 = y v; z0 = z v;
         x1 = x0 * cos radZ - y0 * sin radZ;
         y1 = x0 * sin radZ + y0 * cos radZ;
         z1 = z0;
         x2 = x1 * cos radY + z1 * sin radY;
         z2 = - x1 * sin radY + z1 * cos radY;
         y2 = y1;
         y3 = y2 * cos radX - z2 * sin radX;
         z3 = y2 * sin radX + z2 * cos radX;
         x3 = x2
     in \<lparr>x = x3, y = y3, z = z3\<rparr>)"

text \<open>\<open>GameObject::getPointInWorldSpace\<close>: scale, rotate, translate, then the parent.\<close>

fun getPointInWorldSpace :: "GameObject \<Rightarrow> Vec3 \<Rightarrow> Vec3" where
  "getPointInWorldSpace (GameObject pos rot sc m par ua ia cs) localPoint =
    (let p = localPoint;
         p = p\<lparr>x := x p * x sc\<rparr>;
         p = p\<lparr>y := y p * y sc\<rparr>;
         p = p\<lparr>z := z p * z sc\<rparr>;
         p = applyRotation p rot;
         p = p\<lparr>x := x p + x pos\<rparr>;
         p = p\<lparr>y := y p + y pos\<rparr>;
         p = p\<lparr>z := z p + z pos\<rparr>
     in case par of
          Some q \<Rightarrow> getPointInWorldSpace q p
        | None \<Rightarrow> p)"

text \<open>
  \<open>GameObject::getPointInLocalSpace\<close>: the parent first, then translate back, rotate
  back, and divide by each scale component whose magnitude exceeds \<open>0.0001\<close>.
\<close>

fun getPointInLocalSpace :: "GameObject \<Rightarrow> Vec3 \<Rightarrow> Vec3" where
  "getPointInLocalSpace (GameObject pos rot sc m par ua ia cs) worldPoint =
    (let p = worldPoint;
         p = (case par of Some q \<Rightarrow> getPointInLocalSpace q p | None \<Rightarrow> p);
         p = p\<lparr>x := x p - x pos\<rparr>;
         p = p\<lparr>y := y p - y pos\<rparr>;
         p = p\<lparr>z := z p - z pos\<rparr>;
         p = applyInverseRotation p rot;
         p = (if \<bar>x sc\<bar> > 0.0001 then p\<lparr>x := x p / x sc\<rparr> else p);
         p = (if \<bar>y sc\<bar> > 0.0001 then p\<lparr>y := y p / y sc\<rparr> else p);
         p = (if \<bar>z sc\<bar> > 0.0001 then p\<lparr>z := z p / z sc\<rparr> else p)
     in p)"

text \<open>\<open>GameObject::getRealPosition\<close>.\<close>

definition getRealPosition :: "GameObject \<Rightarrow> Vec3" where
  "getRealPosition obj =
     (case parent obj of
        None \<Rightarrow> position obj
      | Some q \<Rightarrow> getPointInWorldSpace q (position obj))"

section \<open>Container.cpp\<close>

text \<open>
  The state of a \<open>GameObject\<close> after its default constructor: the member initialisers
  of GameObject.h and of \<open>Material\<close>.
\<close>

definition defaultMaterial :: Material where
  "defaultMaterial =
     \<lparr>ambient = [0.2, 0.2, 0.2, 1.0], diffuse = [0.8, 0.8, 0.8, 1.0],
      specular = [0.0, 0.0, 0.0, 1.0], emission = [0.0, 0.0, 0.0, 1.0], shininess = 0.0\<rparr>"

definition defaultGameObject :: GameObject where
  "defaultGameObject =
     GameObject \<lparr>x = 0, y = 0, z = 0\<rparr> \<lparr>x = 0, y = 0, z = 0\<rparr> \<lparr>x = 1, y = 1, z = 1\<rparr>
       defaultMaterial None None None True"

text \<open>
  \<open>child->setParent(this)\<close> as the subtree of \<open>child\<close> sees it. In the program the
  descendants of \<open>child\<close> reach the new parent through their own unchanged pointers;
  here every object carries its ancestors, so the new chain is written into each
  descendant.
\<close>

fun setParentNode :: "Node \<Rightarrow> GameObject option \<Rightarrow> Node" where
  "setParentNode (Leaf k obj) p = Leaf k (setParent obj p)"
| "setParentNode (Container obj children) p =
     Container (setParent obj p)
       (map (\<lambda>child. setParentNode child (Some (setParent obj p))) children)"

text \<open>
  \<open>Container::addChild\<close>: sets the child's parent and appends it. Only a
  \<open>Container\<close> has this method; the first equation is there to make the function total.
\<close>

fun addChild :: "Node \<Rightarrow> Node \<Rightarrow> Node" where
  "addChild (Leaf k obj) child = Leaf k obj"
| "addChild (Container obj children) child =
     Container obj (children @ [setParentNode child (Some obj)])"

text \<open>The base object of a node.\<close>

fun baseOf :: "Node \<Rightarrow> GameObject" where
  "baseOf (Leaf k obj) = obj"
| "baseOf (Container obj children) = obj"

text \<open>\<open>Container::getChildren\<close>; a leaf has none.\<close>

fun getChildren :: "Node \<Rightarrow> Node list" where
  "getChildren (Leaf k obj) = []"
| "getChildren (Container obj children) = children"

text \<open>A setter applied to the base object of a node.\<close>

fun onBase :: "(GameObject \<Rightarrow> GameObject) \<Rightarrow> Node \<Rightarrow> Node" where
  "onBase f (Leaf k obj) = Leaf k (f obj)"
| "onBase f (Container obj children) = Container (f obj) children"

text \<open>
  \<open>clone\<close>. Every leaf class returns \<open>new T(*this)\<close>, the copy constructor, which copies
  each member. \<open>Container::clone\<close> starts from a fresh \<open>Container\<close>, sets five
  properties and adds a clone of each child in turn.
\<close>

fun clone :: "Node \<Rightarrow> Node" where
  "clone (Leaf k obj) = Leaf k obj"
| "clone (Container obj children) =
    (let newC = Container defaultGameObject [];
         newC = onBase (\<lambda>g. setPosition g (x (position obj)) (y (position obj)) (z (position obj))) newC;
         newC = onBase (\<lambda>g. setRotation g (x (rotation obj)) (y (rotation obj)) (z (rotation obj))) newC;
         newC = onBase (\<lambda>g. setScale g (x (scale obj)) (y (scale obj)) (z (scale obj))) newC;
         newC = onBase (\<lambda>g. setMaterial g (material obj)) newC;
         newC = onBase (\<lambda>g. setCastsShadow g (castsShadow obj)) newC
     in fold (\<lambda>child newC. addChild newC (clone child)) children newC)"

section \<open>main.cpp\<close>

definition PLAYER_HEIGHT :: real where
  "PLAYER_HEIGHT = 1.5"

definition PLAYER_RADIUS :: real where
  "PLAYER_RADIUS = 0.3"

text \<open>
  \<open>buildShadowMatrix\<close>: the sixteen entries of \<open>fMatrix\<close> in index order (the array is
  column-major: entry \<open>i + 4 * j\<close> is row \<open>i\<close>, column \<open>j\<close>). Every entry is
  assigned, so the result does not depend on the old content of \<open>fMatrix\<close>.
\<close>

definition buildShadowMatrix :: "real list \<Rightarrow> real list \<Rightarrow> real list" where
  "buildShadowMatrix fLightPos fPlane =
    (let dot = fPlane ! 0 * fLightPos ! 0 + fPlane ! 1 * fLightPos ! 1 +
               fPlane ! 2 * fLightPos ! 2 + fPlane ! 3 * fLightPos ! 3
     in [dot - fLightPos ! 0 * fPlane ! 0,
         0 - fLightPos ! 1 * fPlane ! 0,
         0 - fLightPos ! 2 * fPlane ! 0,
         0 - fLightPos ! 3 * fPlane ! 0,
         0 - fLightPos ! 0 * fPlane ! 1,
         dot - fLightPos ! 1 * fPlane ! 1,
         0 - fLightPos ! 2 * fPlane ! 1,
         0 - fLightPos ! 3 * fPlane ! 1,
         0 - fLightPos ! 0 * fPlane ! 2,
         0 - fLightPos ! 1 * fPlane ! 2,
         dot - fLightPos ! 2 * fPlane ! 2,
         0 - fLightPos ! 3 * fPlane ! 2,
         0 - fLightPos ! 0 * fPlane ! 3,
         0 - fLightPos ! 1 * fPlane ! 3,
         0 - fLightPos ! 2 * fPlane ! 3,
         dot - fLightPos ! 3 * fPlane ! 3])"

text \<open>
  \<open>isOverlap\<close>, step 3: the player's radius and height in the box's frame, from
  \<open>box->getScale()\<close>, the box's own scale. The float \<open>0.001f\<close> is \<open>8589935 / 2^33\<close>.
\<close>

definition localRadius :: "CollisionBox \<Rightarrow> real" where
  "localRadius box =
    (let s = scale (base box);
         sx = (if \<bar>x s\<bar> > 8589935 / 8589934592 then 1 / x s else 1);
         sz = (if \<bar>z s\<bar> > 8589935 / 8589934592 then 1 / z s else 1)
     in PLAYER_RADIUS * max \<bar>sx\<bar> \<bar>sz\<bar>)"

definition localHeight :: "CollisionBox \<Rightarrow> real" where
  "localHeight box =
    (let s = scale (base box);
         sy = (if \<bar>y s\<bar> > 8589935 / 8589934592 then 1 / y s else 1)
     in PLAYER_HEIGHT * \<bar>sy\<bar>)"

text \<open>\<open>isOverlap\<close>: steps 1, 2 and 4, with step 3 as above.\<close>

definition isOverlap :: "CollisionBox \<Rightarrow> real \<Rightarrow> real \<Rightarrow> real \<Rightarrow> bool" where
  "isOverlap box px py pz =
    (let localPos = getPointInLocalSpace (base box) \<lparr>x = px, y = py, z = pz\<rparr>;
         hw = width box / 2;
         hh = height box / 2;
         hd = depth box / 2
     in if x localPos < (- hw - localRadius box) \<or> x localPos > (hw + localRadius box) then False
        else if z localPos < (- hd - localRadius box) \<or> z localPos > (hd + localRadius box) then False
        else if (y localPos - localHeight box) < hh \<and> y localPos > - hh then True
        else False)"

text \<open>
  \<open>findClosestObject\<close>: the two reference parameters \<open>closestDist\<close> and \<open>closestObj\<close>
  are passed in and returned as a pair. The pointer \<open>closestObj\<close> is the object it points
  to, \<open>None\<close> for \<open>nullptr\<close>; an object is told from another by its fields and ancestors.
\<close>

fun findClosestObject ::
  "Node \<Rightarrow> real \<times> GameObject option \<Rightarrow> real \<Rightarrow> real \<Rightarrow> real \<Rightarrow> real \<Rightarrow> real \<Rightarrow> real
     \<Rightarrow> real \<times> GameObject option" where
  "findClosestObject (Container obj children) best camX camY camZ dirX dirY dirZ =
     fold (\<lambda>child best. findClosestObject child best camX camY camZ dirX dirY dirZ) children best"
| "findClosestObject (Leaf k obj) (closestDist, closestObj) camX camY camZ dirX dirY dirZ =
    (let pos = getRealPosition obj;
         toObjX = x pos - camX;
         toObjY = y pos - camY;
         toObjZ = z pos - camZ;
         t = toObjX * dirX + toObjY * dirY + toObjZ * dirZ
     in if t > 0 \<and> t < closestDist then
          (let rayPointX = camX + t * dirX;
               rayPointY = camY + t * dirY;
               rayPointZ = camZ + t * dirZ;
               distSq = (x pos - rayPointX)\<^sup>2 + (y pos - rayPointY)\<^sup>2 + (z pos - rayPointZ)\<^sup>2
           in if distSq < 1.5 * 1.5 then (t, Some obj) else (closestDist, closestObj))
        else (closestDist, closestObj))"

text \<open>
  \<open>checkInteraction\<close>, for the global \<open>camera\<close> and the root list \<open>objects\<close>: the
  handler calls that result.
\<close>

definition checkInteraction :: "Camera \<Rightarrow> Node list \<Rightarrow> Invocation list" where
  "checkInteraction camera objects =
    (let radYaw = yaw camera * pi / 180;
         radPitch = pitch camera * pi / 180;
         dirX = cos radPitch * cos radYaw;
         dirY = sin radPitch;
         dirZ = cos radPitch * sin radYaw;
         len = sqrt (dirX * dirX + dirY * dirY + dirZ * dirZ);
         dirX = dirX / len; dirY = dirY / len; dirZ = dirZ / len;
         (closestDist, closestObj) =
            fold (\<lambda>obj best. findClosestObject obj best
                     (cam_x camera) (cam_y camera) (cam_z camera) dirX dirY dirZ)
              objects (10, None)
     in case closestObj of
          Some obj \<Rightarrow> interact obj
        | None \<Rightarrow> [])"

section \<open>Notions used to state the properties\<close>

text \<open>The object followed by its ancestors, nearest first.\<close>

fun chain :: "GameObject \<Rightarrow> GameObject list" where
  "chain (GameObject pos rot sc m par ua ia cs) =
     GameObject pos rot sc m par ua ia cs # (case par of Some q \<Rightarrow> chain q | None \<Rightarrow> [])"

text \<open>One level of each of the two point conversions.\<close>

definition worldStep :: "GameObject \<Rightarrow> Vec3 \<Rightarrow> Vec3" where
  "worldStep obj p =
    (let q = applyRotation
               \<lparr>x = x p * x (scale obj), y = y p * y (scale obj), z = z p * z (scale obj)\<rparr>
               (rotation obj)
     in \<lparr>x = x q + x (position obj), y = y q + y (position obj), z = z q + z (position obj)\<rparr>)"

definition localStep :: "GameObject \<Rightarrow> Vec3 \<Rightarrow> Vec3" where
  "localStep obj p =
    (let q = applyInverseRotation
               \<lparr>x = x p - x (position obj), y = y p - y (position obj), z = z p - z (position obj)\<rparr>
               (rotation obj)
     in \<lparr>x = (if \<bar>x (scale obj)\<bar> > 0.0001 then x q / x (scale obj) else x q),
         y = (if \<bar>y (scale obj)\<bar> > 0.0001 then y q / y (scale obj) else y q),
         z = (if \<bar>z (scale obj)\<bar> > 0.0001 then z q / z (scale obj) else z q)\<rparr>)"

text \<open>
  For a column-major \<open>float[16]\<close>: the determinant (expansion along the first row) and
  the product with a column vector, which is how \<open>glMultMatrixf\<close> lets the matrix act on
  a homogeneous point.
\<close>

definition det3 ::
  "real \<Rightarrow> real \<Rightarrow> real \<Rightarrow> real \<Rightarrow> real \<Rightarrow> real \<Rightarrow> real \<Rightarrow> real \<Rightarrow> real \<Rightarrow> real" where
  "det3 a b c d e f g h i = a * (e * i - f * h) - b * (d * i - f * g) + c * (d * h - e * g)"

definition det4 :: "real list \<Rightarrow> real" where
  "det4 m =
     m ! 0 * det3 (m ! 5) (m ! 9) (m ! 13) (m ! 6) (m ! 10) (m ! 14) (m ! 7) (m ! 11) (m ! 15)
   - m ! 4 * det3 (m ! 1) (m ! 9) (m ! 13) (m ! 2) (m ! 10) (m ! 14) (m ! 3) (m ! 11) (m ! 15)
   + m ! 8 * det3 (m ! 1) (m ! 5) (m ! 13) (m ! 2) (m ! 6) (m ! 14) (m ! 3) (m ! 7) (m ! 15)
   - m ! 12 * det3 (m ! 1) (m ! 5) (m ! 9) (m ! 2) (m ! 6) (m ! 10) (m ! 3) (m ! 7) (m ! 11)"

definition applyMatrix :: "real list \<Rightarrow> real list \<Rightarrow> real list" where
  "applyMatrix m v =
     [m ! 0 * v ! 0 + m ! 4 * v ! 1 + m ! 8 * v ! 2 + m ! 12 * v ! 3,
      m ! 1 * v ! 0 + m ! 5 * v ! 1 + m ! 9 * v ! 2 + m ! 13 * v ! 3,
      m ! 2 * v ! 0 + m ! 6 * v ! 1 + m ! 10 * v ! 2 + m ! 14 * v ! 3,
      m ! 3 * v ! 0 + m ! 7 * v ! 1 + m ! 11 * v ! 2 + m ! 15 * v ! 3]"

text \<open>The value \<open>dot\<close> of \<open>buildShadowMatrix\<close>.\<close>

definition planeDot :: "real list \<Rightarrow> real list \<Rightarrow> real" where
  "planeDot fLightPos fPlane =
     fPlane ! 0 * fLightPos ! 0 + fPlane ! 1 * fLightPos ! 1 +
     fPlane ! 2 * fLightPos ! 2 + fPlane ! 3 * fLightPos ! 3"

text \<open>
  A light vector or plane with four integer components of magnitude at most \<open>1024\<close>.
  On such arguments every product and every sum that \<open>buildShadowMatrix\<close> takes is an
  integer of magnitude below \<open>2^24\<close>, so the float arithmetic of the program is exact and
  the matrix it stores is the one computed here.
\<close>

definition smallIntegers :: "real list \<Rightarrow> bool" where
  "smallIntegers v \<longleftrightarrow> length v = 4 \<and> list_all (\<lambda>c. c \<in> \<int> \<and> \<bar>c\<bar> \<le> 1024) v"

text \<open>
  The scale composed along the whole parent chain, and the player's radius and height
  as the specification describes their conversion: divided by the components of that
  composed scale, guarded with the epsilon of the local-point conversion.
\<close>

fun worldScale :: "GameObject \<Rightarrow> Vec3" where
  "worldScale (GameObject pos rot sc m par ua ia cs) =
     (case par of
        None \<Rightarrow> sc
      | Some q \<Rightarrow> \<lparr>x = x (worldScale q) * x sc, y = y (worldScale q) * y sc,
                   z = z (worldScale q) * z sc\<rparr>)"

definition specLocalRadius :: "CollisionBox \<Rightarrow> real" where
  "specLocalRadius box =
    (let s = worldScale (base box);
         sx = (if \<bar>x s\<bar> > 0.0001 then 1 / x s else 1);
         sz = (if \<bar>z s\<bar> > 0.0001 then 1 / z s else 1)
     in PLAYER_RADIUS * max \<bar>sx\<bar> \<bar>sz\<bar>)"

definition specLocalHeight :: "CollisionBox \<Rightarrow> real" where
  "specLocalHeight box =
    (let s = worldScale (base box);
         sy = (if \<bar>y s\<bar> > 0.0001 then 1 / y s else 1)
     in PLAYER_HEIGHT * \<bar>sy\<bar>)"

text \<open>Adding \<open>v\<close> to the position of the root of the parent chain.\<close>

fun translateRoot :: "Vec3 \<Rightarrow> GameObject \<Rightarrow> GameObject" where
  "translateRoot v (GameObject pos rot sc m par ua ia cs) =
     (case par of
        None \<Rightarrow> GameObject \<lparr>x = x pos + x v, y = y pos + y v, z = z pos + z v\<rparr> rot sc m None ua ia cs
      | Some q \<Rightarrow> GameObject pos rot sc m (Some (translateRoot v q)) ua ia cs)"

text \<open>The leaves below a node and below a root list, in the order of traversal.\<close>

fun leaves :: "Node \<Rightarrow> GameObject list" where
  "leaves (Leaf k obj) = [obj]"
| "leaves (Container obj children) = concat (map leaves children)"

definition allLeaves :: "Node list \<Rightarrow> GameObject list" where
  "allLeaves objects = concat (map leaves objects)"

text \<open>
  For a ray from \<open>(camX, camY, camZ)\<close> along \<open>(dirX, dirY, dirZ)\<close> and an object: the
  closest-approach parameter \<open>t\<close> and the squared miss-distance \<open>distSq\<close>, as
  \<open>findClosestObject\<close> computes them.
\<close>

definition rayT :: "real \<Rightarrow> real \<Rightarrow> real \<Rightarrow> real \<Rightarrow> real \<Rightarrow> real \<Rightarrow> GameObject \<Rightarrow> real" where
  "rayT camX camY camZ dirX dirY dirZ obj =
     (x (getRealPosition obj) - camX) * dirX + (y (getRealPosition obj) - camY) * dirY +
     (z (getRealPosition obj) - camZ) * dirZ"

definition missSq :: "real \<Rightarrow> real \<Rightarrow> real \<Rightarrow> real \<Rightarrow> real \<Rightarrow> real \<Rightarrow> GameObject \<Rightarrow> real" where
  "missSq camX camY camZ dirX dirY dirZ obj =
     (x (getRealPosition obj) - (camX + rayT camX camY camZ dirX dirY dirZ obj * dirX))\<^sup>2 +
     (y (getRealPosition obj) - (camY + rayT camX camY camZ dirX dirY dirZ obj * dirY))\<^sup>2 +
     (z (getRealPosition obj) - (camZ + rayT camX camY camZ dirX dirY dirZ obj * dirZ))\<^sup>2"

text \<open>A leaf in front of the ray origin that the ray misses by less than \<open>1.5\<close>.\<close>

definition withinRadius :: "real \<Rightarrow> real \<Rightarrow> real \<Rightarrow> real \<Rightarrow> real \<Rightarrow> real \<Rightarrow> GameObject \<Rightarrow> bool" where
  "withinRadius camX camY camZ dirX dirY dirZ obj \<longleftrightarrow>
     0 < rayT camX camY camZ dirX dirY dirZ obj \<and>
     missSq camX camY camZ dirX dirY dirZ obj < 1.5\<^sup>2"

text \<open>What one leaf does to the pair \<open>(closestDist, closestObj)\<close>.\<close>

definition hitStep ::
  "real \<Rightarrow> real \<Rightarrow> real \<Rightarrow> real \<Rightarrow> real \<Rightarrow> real \<Rightarrow> GameObject
     \<Rightarrow> real \<times> GameObject option \<Rightarrow> real \<times> GameObject option" where
  "hitStep camX camY camZ dirX dirY dirZ obj best =
     (if withinRadius camX camY camZ dirX dirY dirZ obj \<and>
         rayT camX camY camZ dirX dirY dirZ obj < fst best
      then (rayT camX camY camZ dirX dirY dirZ obj, Some obj) else best)"

text \<open>
  The loop of \<open>checkInteraction\<close> over the root list, started with
  \<open>closestDist = 10\<close> and \<open>closestObj = nullptr\<close>, and the normalised look direction
  that \<open>checkInteraction\<close> computes from the camera.
\<close>

definition castRay ::
  "Node list \<Rightarrow> real \<Rightarrow> real \<Rightarrow> real \<Rightarrow> real \<Rightarrow> real \<Rightarrow> real \<Rightarrow> real \<times> GameObject option" where
  "castRay objects camX camY camZ dirX dirY dirZ =
     fold (\<lambda>obj best. findClosestObject obj best camX camY camZ dirX dirY dirZ) objects (10, None)"

definition lookLength :: "Camera \<Rightarrow> real" where
  "lookLength camera =
     sqrt (cos (pitch camera * pi / 180) * cos (yaw camera * pi / 180) *
             (cos (pitch camera * pi / 180) * cos (yaw camera * pi / 180)) +
           sin (pitch camera * pi / 180) * sin (pitch camera * pi / 180) +
           cos (pitch camera * pi / 180) * sin (yaw camera * pi / 180) *
             (cos (pitch camera * pi / 180) * sin (yaw camera * pi / 180)))"

definition lookX :: "Camera \<Rightarrow> real" where
  "lookX camera = cos (pitch camera * pi / 180) * cos (yaw camera * pi / 180) / lookLength camera"

definition lookY :: "Camera \<Rightarrow> real" where
  "lookY camera = sin (pitch camera * pi / 180) / lookLength camera"

definition lookZ :: "Camera \<Rightarrow> real" where
  "lookZ camera = cos (pitch camera * pi / 180) * sin (yaw camera * pi / 180) / lookLength camera"

text \<open>
  The same notions for the ray that \<open>checkInteraction\<close> casts from the camera: the
  parameter \<open>t\<close> of an object, its squared miss-distance, and the content of
  \<open>closestObj\<close> after the loop.
\<close>

definition approach :: "Camera \<Rightarrow> GameObject \<Rightarrow> real" where
  "approach camera obj =
     rayT (cam_x camera) (cam_y camera) (cam_z camera) (lookX camera) (lookY camera) (lookZ camera) obj"

definition missSquared :: "Camera \<Rightarrow> GameObject \<Rightarrow> real" where
  "missSquared camera obj =
     missSq (cam_x camera) (cam_y camera) (cam_z camera) (lookX camera) (lookY camera) (lookZ camera) obj"

definition selected :: "Camera \<Rightarrow> Node list \<Rightarrow> GameObject option" where
  "selected camera objects =
     snd (castRay objects (cam_x camera) (cam_y camera) (cam_z camera)
            (lookX camera) (lookY camera) (lookZ camera))"

section \<open>Example scenes\<close>

text \<open>
  A root with the interaction handler \<open>7\<close>, a container below it and a leaf below
  that, none of the two with a handler; a second leaf directly below the root; and a
  lone object without parent or handler. Seen from the origin along the negative Z axis
  the first leaf lies at \<open>t = 5\<close>, the second at \<open>t = 3\<close>, the lone object at \<open>t = 20\<close>.
\<close>

definition exampleRoot :: GameObject where
  "exampleRoot =
     GameObject \<lparr>x = 0, y = 0, z = 0\<rparr> \<lparr>x = 0, y = 0, z = 0\<rparr> \<lparr>x = 1, y = 1, z = 1\<rparr>
       defaultMaterial None None (Some 7) True"

definition exampleMid :: GameObject where
  "exampleMid =
     GameObject \<lparr>x = 0, y = 0, z = - 2\<rparr> \<lparr>x = 0, y = 0, z = 0\<rparr> \<lparr>x = 1, y = 1, z = 1\<rparr>
       defaultMaterial (Some exampleRoot) None None True"

definition exampleLeaf :: GameObject where
  "exampleLeaf =
     GameObject \<lparr>x = 0, y = 0, z = - 3\<rparr> \<lparr>x = 0, y = 0, z = 0\<rparr> \<lparr>x = 1, y = 1, z = 1\<rparr>
       defaultMaterial (Some exampleMid) None None True"

definition exampleNear :: GameObject where
  "exampleNear =
     GameObject \<lparr>x = 0, y = 0, z = - 3\<rparr> \<lparr>x = 0, y = 0, z = 0\<rparr> \<lparr>x = 1, y = 1, z = 1\<rparr>
       defaultMaterial (Some exampleRoot) None None True"

definition exampleFar :: GameObject where
  "exampleFar =
     GameObject \<lparr>x = 0, y = 0, z = - 20\<rparr> \<lparr>x = 0, y = 0, z = 0\<rparr> \<lparr>x = 1, y = 1, z = 1\<rparr>
       defaultMaterial None None None True"

definition exampleScene :: "Node list" where
  "exampleScene =
     [Container exampleRoot [Container exampleMid [Leaf Cube exampleLeaf], Leaf Cylinder exampleNear]]"

definition exampleSceneReordered :: "Node list" where
  "exampleSceneReordered =
     [Container exampleRoot [Leaf Cylinder exampleNear, Container exampleMid [Leaf Cube exampleLeaf]]]"

text \<open>The camera at the origin with the default angles of Camera.h, looking along \<open>- Z\<close>.\<close>

definition exampleCamera :: Camera where
  "exampleCamera = Camera 0 0 0 (- 90) 0"

text \<open>
  Two leaves without a parent, mirror images of each other across the X axis, and a
  camera at the origin with yaw and pitch \<open>0\<close>, looking along \<open>+ X\<close>.
\<close>

definition exampleLeft :: GameObject where
  "exampleLeft =
     GameObject \<lparr>x = 3, y = 0, z = - 1\<rparr> \<lparr>x = 0, y = 0, z = 0\<rparr> \<lparr>x = 1, y = 1, z = 1\<rparr>
       defaultMaterial None None None True"

definition exampleRight :: GameObject where
  "exampleRight =
     GameObject \<lparr>x = 3, y = 0, z = 1\<rparr> \<lparr>x = 0, y = 0, z = 0\<rparr> \<lparr>x = 1, y = 1, z = 1\<rparr>
       defaultMaterial None None None True"

definition exampleAhead :: Camera where
  "exampleAhead = Camera 0 0 0 0 0"

text \<open>
  A box of dimensions \<open>(2, 2, 2)\<close> with scale \<open>(1, 1, 1)\<close> inside a parent of scale
  \<open>(2, 2, 2)\<close>, and a root box whose scale components \<open>1 / 2048\<close> lie between the two
  thresholds \<open>0.0001f\<close> and \<open>0.001f\<close>. All the numbers are floats.
\<close>

definition exampleNestedBox :: CollisionBox where
  "exampleNestedBox =
     CollisionBox
       (GameObject \<lparr>x = 0, y = 0, z = 0\<rparr> \<lparr>x = 0, y = 0, z = 0\<rparr> \<lparr>x = 1, y = 1, z = 1\<rparr>
          defaultMaterial
          (Some (GameObject \<lparr>x = 0, y = 0, z = 0\<rparr> \<lparr>x = 0, y = 0, z = 0\<rparr> \<lparr>x = 2, y = 2, z = 2\<rparr>
                   defaultMaterial None None None True))
          None None False)
       2 2 2"

definition exampleTinyBox :: CollisionBox where
  "exampleTinyBox =
     CollisionBox
       (GameObject \<lparr>x = 0, y = 0, z = 0\<rparr> \<lparr>x = 0, y = 0, z = 0\<rparr>
          \<lparr>x = 1 / 2048, y = 1 / 2048, z = 1 / 2048\<rparr> defaultMaterial None None None False)
       2 2 2"

section \<open>The point conversions, level by level\<close>

lemma Vec3_update_all: "p\<lparr>x := a, y := b, z := c\<rparr> = \<lparr>x = a, y = b, z = c\<rparr>"
  by (cases p) simp

lemma getPointInWorldSpace_step:
  "getPointInWorldSpace obj p =
     (case parent obj of Some q \<Rightarrow> getPointInWorldSpace q (worldStep obj p) | None \<Rightarrow> worldStep obj p)"
  by (cases obj) (simp add: worldStep_def Let_def Vec3_update_all split: option.splits)

lemma getPointInLocalSpace_step:
  "getPointInLocalSpace obj p =
     localStep obj (case parent obj of Some q \<Rightarrow> getPointInLocalSpace q p | None \<Rightarrow> p)"
  by (cases obj) (simp add: localStep_def Let_def Vec3_update_all split: option.splits)

declare getPointInWorldSpace.simps [simp del] getPointInLocalSpace.simps [simp del]

lemma getPointInWorldSpace_root:
  "parent obj = None \<Longrightarrow> getPointInWorldSpace obj p = worldStep obj p"
  by (simp add: getPointInWorldSpace_step)

lemma getPointInWorldSpace_child:
  "parent obj = Some q \<Longrightarrow> getPointInWorldSpace obj p = getPointInWorldSpace q (worldStep obj p)"
  by (simp add: getPointInWorldSpace_step)

lemma getPointInLocalSpace_root:
  "parent obj = None \<Longrightarrow> getPointInLocalSpace obj p = localStep obj p"
  by (simp add: getPointInLocalSpace_step)

lemma getPointInLocalSpace_child:
  "parent obj = Some q \<Longrightarrow> getPointInLocalSpace obj p = localStep obj (getPointInLocalSpace q p)"
  by (simp add: getPointInLocalSpace_step)

section \<open>The planar shadow matrix\<close>

lemma det_rank_one:
  fixes d :: real
  shows "det4 [d - l0 * p0, 0 - l1 * p0, 0 - l2 * p0, 0 - l3 * p0,
               0 - l0 * p1, d - l1 * p1, 0 - l2 * p1, 0 - l3 * p1,
               0 - l0 * p2, 0 - l1 * p2, d - l2 * p2, 0 - l3 * p2,
               0 - l0 * p3, 0 - l1 * p3, 0 - l2 * p3, d - l3 * p3]
         = d * d * d * (d - (p0 * l0 + p1 * l1 + p2 * l2 + p3 * l3))"
  unfolding det4_def det3_def
  apply (simp only: nth_Cons_numeral nth_Cons_0 numeral_eq_Suc nth_Cons_Suc pred_numeral_simps)
  apply simp
  apply algebra
  done

lemma shadow_singular: "det4 (buildShadowMatrix L P) = 0"
  unfolding buildShadowMatrix_def Let_def
  by (simp only: det_rank_one) simp

lemma nth_applyMatrix:
  "applyMatrix m v ! 0 = m ! 0 * v ! 0 + m ! 4 * v ! 1 + m ! 8 * v ! 2 + m ! 12 * v ! 3"
  "applyMatrix m v ! 1 = m ! 1 * v ! 0 + m ! 5 * v ! 1 + m ! 9 * v ! 2 + m ! 13 * v ! 3"
  "applyMatrix m v ! 2 = m ! 2 * v ! 0 + m ! 6 * v ! 1 + m ! 10 * v ! 2 + m ! 14 * v ! 3"
  "applyMatrix m v ! 3 = m ! 3 * v ! 0 + m ! 7 * v ! 1 + m ! 11 * v ! 2 + m ! 15 * v ! 3"
  by (simp_all add: applyMatrix_def numeral_3_eq_3)

lemma nth_buildShadowMatrix:
  "buildShadowMatrix L P ! 0 = planeDot L P - L ! 0 * P ! 0"
  "buildShadowMatrix L P ! 1 = 0 - L ! 1 * P ! 0"
  "buildShadowMatrix L P ! 2 = 0 - L ! 2 * P ! 0"
  "buildShadowMatrix L P ! 3 = 0 - L ! 3 * P ! 0"
  "buildShadowMatrix L P ! 4 = 0 - L ! 0 * P ! 1"
  "buildShadowMatrix L P ! 5 = planeDot L P - L ! 1 * P ! 1"
  "buildShadowMatrix L P ! 6 = 0 - L ! 2 * P ! 1"
  "buildShadowMatrix L P ! 7 = 0 - L ! 3 * P ! 1"
  "buildShadowMatrix L P ! 8 = 0 - L ! 0 * P ! 2"
  "buildShadowMatrix L P ! 9 = 0 - L ! 1 * P ! 2"
  "buildShadowMatrix L P ! 10 = planeDot L P - L ! 2 * P ! 2"
  "buildShadowMatrix L P ! 11 = 0 - L ! 3 * P ! 2"
  "buildShadowMatrix L P ! 12 = 0 - L ! 0 * P ! 3"
  "buildShadowMatrix L P ! 13 = 0 - L ! 1 * P ! 3"
  "buildShadowMatrix L P ! 14 = 0 - L ! 2 * P ! 3"
  "buildShadowMatrix L P ! 15 = planeDot L P - L ! 3 * P ! 3"
  by (simp_all add: buildShadowMatrix_def planeDot_def Let_def)

text \<open>
  With \<open>d = P \<cdot> L\<close> the matrix is \<open>d I - L P\<^sup>T\<close>; the image \<open>w\<close> of any vector lies in
  the plane (\<open>P \<cdot> w = 0\<close>), so a second application multiplies it by \<open>d\<close>.
\<close>

lemma rank_one_square:
  fixes d :: real
  assumes d: "d = p0 * l0 + p1 * l1 + p2 * l2 + p3 * l3"
    and w0: "w0 = (d - l0 * p0) * v0 + (0 - l0 * p1) * v1 + (0 - l0 * p2) * v2 + (0 - l0 * p3) * v3"
    and w1: "w1 = (0 - l1 * p0) * v0 + (d - l1 * p1) * v1 + (0 - l1 * p2) * v2 + (0 - l1 * p3) * v3"
    and w2: "w2 = (0 - l2 * p0) * v0 + (0 - l2 * p1) * v1 + (d - l2 * p2) * v2 + (0 - l2 * p3) * v3"
    and w3: "w3 = (0 - l3 * p0) * v0 + (0 - l3 * p1) * v1 + (0 - l3 * p2) * v2 + (d - l3 * p3) * v3"
  shows "(d - l0 * p0) * w0 + (0 - l0 * p1) * w1 + (0 - l0 * p2) * w2 + (0 - l0 * p3) * w3 = d * w0"
    and "(0 - l1 * p0) * w0 + (d - l1 * p1) * w1 + (0 - l1 * p2) * w2 + (0 - l1 * p3) * w3 = d * w1"
    and "(0 - l2 * p0) * w0 + (0 - l2 * p1) * w1 + (d - l2 * p2) * w2 + (0 - l2 * p3) * w3 = d * w2"
    and "(0 - l3 * p0) * w0 + (0 - l3 * p1) * w1 + (0 - l3 * p2) * w2 + (d - l3 * p3) * w3 = d * w3"
proof -
  have "p0 * w0 + p1 * w1 + p2 * w2 + p3 * w3
        = (d - (p0 * l0 + p1 * l1 + p2 * l2 + p3 * l3)) * (p0 * v0 + p1 * v1 + p2 * v2 + p3 * v3)"
    unfolding w0 w1 w2 w3 by (simp add: algebra_simps)
  then have pw: "p0 * w0 + p1 * w1 + p2 * w2 + p3 * w3 = 0"
    using d by simp
  have "(d - l0 * p0) * w0 + (0 - l0 * p1) * w1 + (0 - l0 * p2) * w2 + (0 - l0 * p3) * w3
        = d * w0 - l0 * (p0 * w0 + p1 * w1 + p2 * w2 + p3 * w3)"
    by (simp add: algebra_simps)
  then show "(d - l0 * p0) * w0 + (0 - l0 * p1) * w1 + (0 - l0 * p2) * w2 + (0 - l0 * p3) * w3 = d * w0"
    by (simp add: pw)
  have "(0 - l1 * p0) * w0 + (d - l1 * p1) * w1 + (0 - l1 * p2) * w2 + (0 - l1 * p3) * w3
        = d * w1 - l1 * (p0 * w0 + p1 * w1 + p2 * w2 + p3 * w3)"
    by (simp add: algebra_simps)
  then show "(0 - l1 * p0) * w0 + (d - l1 * p1) * w1 + (0 - l1 * p2) * w2 + (0 - l1 * p3) * w3 = d * w1"
    by (simp add: pw)
  have "(0 - l2 * p0) * w0 + (0 - l2 * p1) * w1 + (d - l2 * p2) * w2 + (0 - l2 * p3) * w3
        = d * w2 - l2 * (p0 * w0 + p1 * w1 + p2 * w2 + p3 * w3)"
    by (simp add: algebra_simps)
  then show "(0 - l2 * p0) * w0 + (0 - l2 * p1) * w1 + (d - l2 * p2) * w2 + (0 - l2 * p3) * w3 = d * w2"
    by (simp add: pw)
  have "(0 - l3 * p0) * w0 + (0 - l3 * p1) * w1 + (0 - l3 * p2) * w2 + (d - l3 * p3) * w3
        = d * w3 - l3 * (p0 * w0 + p1 * w1 + p2 * w2 + p3 * w3)"
    by (simp add: algebra_simps)
  then show "(0 - l3 * p0) * w0 + (0 - l3 * p1) * w1 + (0 - l3 * p2) * w2 + (d - l3 * p3) * w3 = d * w3"
    by (simp add: pw)
qed

lemma shadow_twice:
  "applyMatrix (buildShadowMatrix L P) (applyMatrix (buildShadowMatrix L P) v)
     = map (\<lambda>c. planeDot L P * c) (applyMatrix (buildShadowMatrix L P) v)"
proof -
  let ?M = "buildShadowMatrix L P"
  let ?w = "applyMatrix ?M v"
  note sq = rank_one_square [OF planeDot_def [of L P]
      nth_applyMatrix(1) [of ?M v, unfolded nth_buildShadowMatrix]
      nth_applyMatrix(2) [of ?M v, unfolded nth_buildShadowMatrix]
      nth_applyMatrix(3) [of ?M v, unfolded nth_buildShadowMatrix]
      nth_applyMatrix(4) [of ?M v, unfolded nth_buildShadowMatrix]]
  have "applyMatrix ?M ?w = [planeDot L P * ?w ! 0, planeDot L P * ?w ! 1,
                              planeDot L P * ?w ! 2, planeDot L P * ?w ! 3]"
    by (subst applyMatrix_def) (simp only: nth_buildShadowMatrix sq)
  also have "\<dots> = map (\<lambda>c. planeDot L P * c) ?w"
    by (simp add: applyMatrix_def)
  finally show ?thesis .
qed

lemma display_planeDot: "planeDot [1, 1, 1, 0] [0, 1, 0, 0] = 1"
  by (simp add: planeDot_def)

text \<open>
  C3, as the specification states it, fails. With the light \<open>(0, 2, 0, 0)\<close> and the
  ground plane \<open>(0, 1, 0, 0)\<close> the point \<open>(1, 0, 0, 1)\<close> goes to \<open>(2, 0, 0, 2)\<close> and that
  to \<open>(4, 0, 0, 4)\<close>; with the light \<open>(1, 0, 0, 0)\<close>, which is parallel to the plane, the
  point \<open>(0, 1, 0, 1)\<close> goes to \<open>(- 1, 0, 0, 0)\<close> and that to the zero vector.
\<close>

theorem shadow_matrix_not_idempotent:
  "applyMatrix (buildShadowMatrix [0, 2, 0, 0] [0, 1, 0, 0]) [1, 0, 0, 1] = [2, 0, 0, 2] \<and>
   applyMatrix (buildShadowMatrix [0, 2, 0, 0] [0, 1, 0, 0])
     (applyMatrix (buildShadowMatrix [0, 2, 0, 0] [0, 1, 0, 0]) [1, 0, 0, 1]) = [4, 0, 0, 4] \<and>
   applyMatrix (buildShadowMatrix [1, 0, 0, 0] [0, 1, 0, 0]) [0, 1, 0, 1] = [- 1, 0, 0, 0] \<and>
   applyMatrix (buildShadowMatrix [1, 0, 0, 0] [0, 1, 0, 0])
     (applyMatrix (buildShadowMatrix [1, 0, 0, 0] [0, 1, 0, 0]) [0, 1, 0, 1]) = [0, 0, 0, 0]"
  by (simp add: applyMatrix_def buildShadowMatrix_def Let_def)

text \<open>
  On small integers every entry of the matrix, like \<open>dot\<close> and every product before
  it, is an integer of magnitude below \<open>2^24\<close>, a number that a float holds exactly.
\<close>

lemma small_product:
  fixes a b :: real
  assumes "a \<in> \<int>" "\<bar>a\<bar> \<le> 1024" "b \<in> \<int>" "\<bar>b\<bar> \<le> 1024"
  shows "a * b \<in> \<int>" "\<bar>a * b\<bar> \<le> 1048576"
proof -
  show "a * b \<in> \<int>" using assms(1,3) by (rule Ints_mult)
  have "\<bar>a\<bar> * \<bar>b\<bar> \<le> 1024 * 1024"
    using assms(2,4) by (intro mult_mono) simp_all
  then show "\<bar>a * b\<bar> \<le> 1048576" by (simp add: abs_mult)
qed

lemma smallIntegers_cases:
  assumes "smallIntegers v"
  obtains a b c d where "v = [a, b, c, d]"
    "a \<in> \<int>" "\<bar>a\<bar> \<le> 1024" "b \<in> \<int>" "\<bar>b\<bar> \<le> 1024"
    "c \<in> \<int>" "\<bar>c\<bar> \<le> 1024" "d \<in> \<int>" "\<bar>d\<bar> \<le> 1024"
proof -
  from assms have len: "length v = 4" by (simp add: smallIntegers_def)
  then obtain a b c d where v: "v = [a, b, c, d]"
    by (auto simp: length_Suc_conv numeral_eq_Suc)
  with assms that show ?thesis by (simp add: smallIntegers_def)
qed

lemma small_sum4:
  fixes a b c d :: real
  assumes "a \<in> \<int>" "\<bar>a\<bar> \<le> 1048576" "b \<in> \<int>" "\<bar>b\<bar> \<le> 1048576"
    "c \<in> \<int>" "\<bar>c\<bar> \<le> 1048576" "d \<in> \<int>" "\<bar>d\<bar> \<le> 1048576"
  shows "a + b + c + d \<in> \<int>" "\<bar>a + b + c + d\<bar> \<le> 4194304"
proof -
  show "a + b + c + d \<in> \<int>"
    using assms(1,3,5,7) by (intro Ints_add)
  have "\<bar>a + b + c + d\<bar> \<le> \<bar>a\<bar> + \<bar>b\<bar> + \<bar>c\<bar> + \<bar>d\<bar>"
    by linarith
  with assms(2,4,6,8) show "\<bar>a + b + c + d\<bar> \<le> 4194304" by linarith
qed

lemma small_entry:
  fixes a d :: real
  assumes "d \<in> \<int>" "\<bar>d\<bar> \<le> 4194304" "a \<in> \<int>" "\<bar>a\<bar> \<le> 1048576"
  shows "d - a \<in> \<int> \<and> \<bar>d - a\<bar> < 2 ^ 24" "0 - a \<in> \<int> \<and> \<bar>0 - a\<bar> < 2 ^ 24"
proof -
  have "\<bar>d - a\<bar> \<le> \<bar>d\<bar> + \<bar>a\<bar>" by linarith
  with assms(2,4) have "\<bar>d - a\<bar> < 16777216" by linarith
  moreover have "d - a \<in> \<int>" using assms(1,3) by (rule Ints_diff)
  ultimately show "d - a \<in> \<int> \<and> \<bar>d - a\<bar> < 2 ^ 24" by simp
  have "\<bar>0 - a\<bar> < 16777216" using assms(4) by simp
  moreover have "0 - a \<in> \<int>" using assms(3) by simp
  ultimately show "0 - a \<in> \<int> \<and> \<bar>0 - a\<bar> < 2 ^ 24" by simp
qed

lemma shadow_entries_exact:
  assumes "smallIntegers L" and "smallIntegers P"
  shows "planeDot L P \<in> \<int> \<and> \<bar>planeDot L P\<bar> \<le> 4194304 \<and>
         list_all (\<lambda>c. c \<in> \<int> \<and> \<bar>c\<bar> < 2 ^ 24) (buildShadowMatrix L P)"
proof -
  from assms(1) obtain l0 l1 l2 l3 where L: "L = [l0, l1, l2, l3]"
    and l0: "l0 \<in> \<int>" "\<bar>l0\<bar> \<le> 1024" and l1: "l1 \<in> \<int>" "\<bar>l1\<bar> \<le> 1024"
    and l2: "l2 \<in> \<int>" "\<bar>l2\<bar> \<le> 1024" and l3: "l3 \<in> \<int>" "\<bar>l3\<bar> \<le> 1024"
    by (rule smallIntegers_cases)
  from assms(2) obtain p0 p1 p2 p3 where P: "P = [p0, p1, p2, p3]"
    and p0: "p0 \<in> \<int>" "\<bar>p0\<bar> \<le> 1024" and p1: "p1 \<in> \<int>" "\<bar>p1\<bar> \<le> 1024"
    and p2: "p2 \<in> \<int>" "\<bar>p2\<bar> \<le> 1024" and p3: "p3 \<in> \<int>" "\<bar>p3\<bar> \<le> 1024"
    by (rule smallIntegers_cases)
  define d where "d = p0 * l0 + p1 * l1 + p2 * l2 + p3 * l3"
  have d: "d \<in> \<int>" "\<bar>d\<bar> \<le> 4194304"
    unfolding d_def
    by (rule small_sum4 [OF small_product [OF p0 l0] small_product [OF p1 l1]
          small_product [OF p2 l2] small_product [OF p3 l3]])+
  have dot: "planeDot L P = d"
    by (simp add: planeDot_def L P d_def)
  have M: "buildShadowMatrix L P =
      [d - l0 * p0, 0 - l1 * p0, 0 - l2 * p0, 0 - l3 * p0,
       0 - l0 * p1, d - l1 * p1, 0 - l2 * p1, 0 - l3 * p1,
       0 - l0 * p2, 0 - l1 * p2, d - l2 * p2, 0 - l3 * p2,
       0 - l0 * p3, 0 - l1 * p3, 0 - l2 * p3, d - l3 * p3]"
    by (simp add: buildShadowMatrix_def L P d_def)
  note entries =
    small_entry [OF d small_product [OF l0 p0]] small_entry [OF d small_product [OF l0 p1]]
    small_entry [OF d small_product [OF l0 p2]] small_entry [OF d small_product [OF l0 p3]]
    small_entry [OF d small_product [OF l1 p0]] small_entry [OF d small_product [OF l1 p1]]
    small_entry [OF d small_product [OF l1 p2]] small_entry [OF d small_product [OF l1 p3]]
    small_entry [OF d small_product [OF l2 p0]] small_entry [OF d small_product [OF l2 p1]]
    small_entry [OF d small_product [OF l2 p2]] small_entry [OF d small_product [OF l2 p3]]
    small_entry [OF d small_product [OF l3 p0]] small_entry [OF d small_product [OF l3 p1]]
    small_entry [OF d small_product [OF l3 p2]] small_entry [OF d small_product [OF l3 p3]]
  have "list_all (\<lambda>c. c \<in> \<int> \<and> \<bar>c\<bar> < 2 ^ 24) (buildShadowMatrix L P)"
    unfolding M
    by (simp only: list_all_Cons_iff list_all_Nil_iff entries simp_thms)
  with dot d show ?thesis by simp
qed

text \<open>
  C3, amended. For a light vector and a plane with integer components of magnitude at
  most \<open>1024\<close>, where \<open>buildShadowMatrix\<close> computes exactly, the matrix has determinant
  \<open>0\<close>, and applying it twice to a vector gives \<open>dot\<close> times the result of applying it
  once; the second application changes nothing when \<open>dot = 1\<close>, as for the light and the
  plane that \<open>display\<close> passes.
\<close>

theorem shadow_matrix_singular_and_square:
  assumes "smallIntegers L" and "smallIntegers P"
  shows "list_all (\<lambda>c. c \<in> \<int> \<and> \<bar>c\<bar> < 2 ^ 24) (buildShadowMatrix L P) \<and>
   det4 (buildShadowMatrix L P) = 0 \<and>
   applyMatrix (buildShadowMatrix L P) (applyMatrix (buildShadowMatrix L P) v)
     = map (\<lambda>c. planeDot L P * c) (applyMatrix (buildShadowMatrix L P) v) \<and>
   (planeDot L P = 1 \<longrightarrow>
      applyMatrix (buildShadowMatrix L P) (applyMatrix (buildShadowMatrix L P) v)
        = applyMatrix (buildShadowMatrix L P) v)"
proof -
  have exact: "list_all (\<lambda>c. c \<in> \<int> \<and> \<bar>c\<bar> < 2 ^ 24) (buildShadowMatrix L P)"
    using shadow_entries_exact [OF assms] by blast
  have once: "applyMatrix (buildShadowMatrix L P) (applyMatrix (buildShadowMatrix L P) v)
        = applyMatrix (buildShadowMatrix L P) v" if "planeDot L P = 1"
    by (simp only: shadow_twice that mult_1 list.map_ident)
  from exact shadow_singular [of L P] shadow_twice [of L P v] once show ?thesis by blast
qed

theorem shadow_matrix_singular_and_square_witness:
  "smallIntegers [1, 1, 1, 0] \<and> smallIntegers [0, 1, 0, 0] \<and>
   planeDot [1, 1, 1, 0] [0, 1, 0, 0] = 1 \<and>
   det4 (buildShadowMatrix [1, 1, 1, 0] [0, 1, 0, 0]) = 0 \<and>
   applyMatrix (buildShadowMatrix [1, 1, 1, 0] [0, 1, 0, 0])
       (applyMatrix (buildShadowMatrix [1, 1, 1, 0] [0, 1, 0, 0]) [3, 5, 7, 1])
     = applyMatrix (buildShadowMatrix [1, 1, 1, 0] [0, 1, 0, 0]) [3, 5, 7, 1]"
proof -
  have l: "smallIntegers [1, 1, 1, 0]" by (simp add: smallIntegers_def)
  have p: "smallIntegers [0, 1, 0, 0]" by (simp add: smallIntegers_def)
  have d: "planeDot [1, 1, 1, 0] [0, 1, 0, 0] = 1" by (rule display_planeDot)
  from shadow_matrix_singular_and_square [OF l p, of "[3, 5, 7, 1]"] l p d
  show ?thesis by blast
qed

section \<open>Interaction bubbling\<close>

lemma interact_unfold:
  "interact obj =
     (case interactAction obj of
        Some h \<Rightarrow> [Invocation h obj]
      | None \<Rightarrow> (case parent obj of Some q \<Rightarrow> interact q | None \<Rightarrow> []))"
  by (cases obj) (simp split: option.splits)

lemma interact_own: "interactAction obj = Some h \<Longrightarrow> interact obj = [Invocation h obj]"
  by (simp add: interact_unfold)

lemma interact_bubble:
  "interactAction obj = None \<Longrightarrow> parent obj = Some q \<Longrightarrow> interact obj = interact q"
  by (simp add: interact_unfold)

lemma interact_silent:
  "list_all (\<lambda>a. interactAction a = None) (chain obj) \<Longrightarrow> interact obj = []"
proof (induction obj)
  case (GameObject pos rot sc m par ua ia cs)
  then show ?case by (cases par) auto
qed

text \<open>Whatever the chain, one call of \<open>interact\<close> runs at most one handler.\<close>

lemma interact_at_most_one: "length (interact obj) \<le> 1"
proof (induction obj)
  case (GameObject pos rot sc m par ua ia cs)
  then show ?case by (cases par; cases ia) auto
qed

text \<open>
  C6. In a chain \<open>rootObj\<close>, \<open>midObj\<close>, \<open>leafObj\<close> where only \<open>rootObj\<close> has a handler,
  \<open>interact\<close> on \<open>leafObj\<close> makes exactly one handler call, that of \<open>rootObj\<close>'s
  handler on \<open>rootObj\<close>. In general \<open>interact\<close> runs the object's own handler if
  there is one, otherwise does what \<open>interact\<close> on the parent does, and makes no call
  when no object of the chain has a handler.
\<close>

theorem interact_bubbles_to_handler:
  "(interactAction rootObj = Some h \<and> interactAction midObj = None \<and> parent midObj = Some rootObj \<and>
     interactAction leafObj = None \<and> parent leafObj = Some midObj
       \<longrightarrow> interact leafObj = [Invocation h rootObj]) \<and>
   (interactAction obj = Some g \<longrightarrow> interact obj = [Invocation g obj]) \<and>
   (interactAction obj = None \<and> parent obj = Some q \<longrightarrow> interact obj = interact q) \<and>
   (list_all (\<lambda>a. interactAction a = None) (chain obj) \<longrightarrow> interact obj = [])"
  by (simp add: interact_own interact_bubble interact_silent)

theorem interact_bubbles_to_handler_witness:
  "interactAction exampleRoot = Some 7 \<and> interactAction exampleMid = None \<and>
   parent exampleMid = Some exampleRoot \<and> interactAction exampleLeaf = None \<and>
   parent exampleLeaf = Some exampleMid \<and>
   interact exampleLeaf = [Invocation 7 exampleRoot] \<and>
   interact exampleRoot = [Invocation 7 exampleRoot] \<and>
   interact exampleMid = interact exampleRoot \<and>
   list_all (\<lambda>a. interactAction a = None) (chain exampleFar) \<and>
   interact exampleFar = []"
proof -
  have chain3: "interactAction exampleRoot = Some 7 \<and> interactAction exampleMid = None \<and>
      parent exampleMid = Some exampleRoot \<and> interactAction exampleLeaf = None \<and>
      parent exampleLeaf = Some exampleMid"
    by (simp add: exampleRoot_def exampleMid_def exampleLeaf_def)
  have silent: "list_all (\<lambda>a. interactAction a = None) (chain exampleFar)"
    by (simp add: exampleFar_def)
  note t1 = interact_bubbles_to_handler
    [where rootObj = exampleRoot and h = 7 and midObj = exampleMid and leafObj = exampleLeaf
       and obj = exampleRoot and g = 7]
  note t2 = interact_bubbles_to_handler
    [where obj = exampleMid and q = exampleRoot]
  note t3 = interact_bubbles_to_handler [where obj = exampleFar]
  from t1 chain3 have a: "interact exampleLeaf = [Invocation 7 exampleRoot]"
    and b: "interact exampleRoot = [Invocation 7 exampleRoot]" by blast+
  from t2 chain3 have c: "interact exampleMid = interact exampleRoot" by blast
  from t3 silent have d: "interact exampleFar = []" by blast
  from chain3 a b c silent d show ?thesis by blast
qed

section \<open>The overlap test\<close>

text \<open>
  C5. The box at the origin with dimensions \<open>(2, 2, 2)\<close>, no rotation, scale
  \<open>(1, 1, 1)\<close> and no parent, with the player radius \<open>0.3\<close> and height \<open>1.5\<close>:
  the point \<open>(0.5, 1.0, 0)\<close> overlaps, the point \<open>(5, 1.0, 0)\<close> does not.
\<close>

theorem isOverlap_scenarios:
  "PLAYER_RADIUS = 0.3 \<and> PLAYER_HEIGHT = 1.5 \<and>
   isOverlap (CollisionBox (GameObject \<lparr>x = 0, y = 0, z = 0\<rparr> \<lparr>x = 0, y = 0, z = 0\<rparr>
       \<lparr>x = 1, y = 1, z = 1\<rparr> m None ua ia cs) 2 2 2) 0.5 1.0 0 = True \<and>
   isOverlap (CollisionBox (GameObject \<lparr>x = 0, y = 0, z = 0\<rparr> \<lparr>x = 0, y = 0, z = 0\<rparr>
       \<lparr>x = 1, y = 1, z = 1\<rparr> m None ua ia cs) 2 2 2) 5 1.0 0 = False"
  by (simp add: isOverlap_def localRadius_def localHeight_def PLAYER_RADIUS_def PLAYER_HEIGHT_def
        getPointInLocalSpace_root localStep_def applyInverseRotation_def Let_def)

lemma translateRoot_scale: "scale (translateRoot v g) = scale g"
  by (cases g) (simp split: option.splits)

lemma local_translateRoot:
  "getPointInLocalSpace (translateRoot v g) \<lparr>x = px + x v, y = py + y v, z = pz + z v\<rparr>
     = getPointInLocalSpace g \<lparr>x = px, y = py, z = pz\<rparr>"
proof (induction g)
  case (GameObject pos rot sc m par ua ia cs)
  let ?g = "GameObject pos rot sc m par ua ia cs"
  show ?case
  proof (cases par)
    case None
    then show ?thesis
      by (simp add: getPointInLocalSpace_root localStep_def Let_def)
  next
    case (Some q)
    then have ih: "getPointInLocalSpace (translateRoot v q) \<lparr>x = px + x v, y = py + y v, z = pz + z v\<rparr>
        = getPointInLocalSpace q \<lparr>x = px, y = py, z = pz\<rparr>"
      using GameObject.IH by simp
    have 1: "getPointInLocalSpace (translateRoot v ?g) \<lparr>x = px + x v, y = py + y v, z = pz + z v\<rparr>
        = localStep (translateRoot v ?g) (getPointInLocalSpace (translateRoot v q)
            \<lparr>x = px + x v, y = py + y v, z = pz + z v\<rparr>)"
      using Some by (intro getPointInLocalSpace_child) simp
    have 2: "getPointInLocalSpace ?g \<lparr>x = px, y = py, z = pz\<rparr>
        = localStep ?g (getPointInLocalSpace q \<lparr>x = px, y = py, z = pz\<rparr>)"
      using Some by (intro getPointInLocalSpace_child) simp
    have 3: "localStep (translateRoot v ?g) w = localStep ?g w" for w
      using Some by (simp add: localStep_def Let_def)
    show ?thesis by (simp only: 1 2 3 ih)
  qed
qed

text \<open>
  C8. Adding a vector \<open>v\<close> to the position of the root of the box's parent chain and to
  the query point does not change the result of \<open>isOverlap\<close>.
\<close>

theorem isOverlap_translation:
  "isOverlap (CollisionBox (translateRoot v g) w h d) (px + x v) (py + y v) (pz + z v)
     = isOverlap (CollisionBox g w h d) px py pz"
  unfolding isOverlap_def localRadius_def localHeight_def
  by (simp only: CollisionBox.sel local_translateRoot translateRoot_scale)

text \<open>
  C4 does not hold of \<open>isOverlap\<close>: the radius and the height are divided by the
  components of \<open>box->getScale()\<close>, the box's own scale, and the scale of its ancestors
  is left out, although the point conversion just before takes it in. For the box of
  scale \<open>1\<close> inside a parent of scale \<open>2\<close> the radius and height stay \<open>PLAYER_RADIUS\<close> and
  \<open>PLAYER_HEIGHT\<close>, where division by the composed scale halves them; the world point
  \<open>(2.5, 1, 0)\<close>, at local \<open>x = 1.25\<close>, is accepted, beyond the bound
  \<open>1 + PLAYER_RADIUS / 2\<close>. The guard differs as well: for the box of scale \<open>1 / 2048\<close> the
  point conversion divides by the scale and the radius is left undivided.
\<close>

theorem isOverlap_ignores_parent_scale:
  "worldScale (base exampleNestedBox) = \<lparr>x = 2, y = 2, z = 2\<rparr> \<and>
   getPointInLocalSpace (base exampleNestedBox) \<lparr>x = 2.5, y = 1, z = 0\<rparr>
     = \<lparr>x = 1.25, y = 0.5, z = 0\<rparr> \<and>
   localRadius exampleNestedBox = PLAYER_RADIUS \<and>
   specLocalRadius exampleNestedBox = PLAYER_RADIUS / 2 \<and>
   localHeight exampleNestedBox = PLAYER_HEIGHT \<and>
   specLocalHeight exampleNestedBox = PLAYER_HEIGHT / 2 \<and>
   isOverlap exampleNestedBox 2.5 1 0 = True \<and>
   width exampleNestedBox / 2 + specLocalRadius exampleNestedBox < 1.25 \<and>
   getPointInLocalSpace (base exampleTinyBox) \<lparr>x = 1, y = 1, z = 1\<rparr>
     = \<lparr>x = 2048, y = 2048, z = 2048\<rparr> \<and>
   localRadius exampleTinyBox = PLAYER_RADIUS \<and>
   specLocalRadius exampleTinyBox = PLAYER_RADIUS * 2048"
  by (simp add: exampleNestedBox_def exampleTinyBox_def isOverlap_def localRadius_def
        localHeight_def specLocalRadius_def specLocalHeight_def PLAYER_RADIUS_def PLAYER_HEIGHT_def
        getPointInLocalSpace_root getPointInLocalSpace_child localStep_def
        applyInverseRotation_def Let_def)

section \<open>Cloning\<close>

lemma fold_addChild:
  "fold (\<lambda>child newC. addChild newC (f child)) cs (Container g acc)
     = Container g (acc @ map (\<lambda>child. setParentNode (f child) (Some g)) cs)"
  by (induction cs arbitrary: acc) simp_all

lemma Vec3_eta: "\<lparr>x = x v, y = y v, z = z v\<rparr> = v"
  by (cases v) simp

lemma clone_Container:
  "clone (Container obj children) =
     Container (GameObject (position obj) (rotation obj) (scale obj) (material obj) None None None
                  (castsShadow obj))
       (map (\<lambda>child. setParentNode (clone child)
               (Some (GameObject (position obj) (rotation obj) (scale obj) (material obj)
                        None None None (castsShadow obj)))) children)"
  by (simp add: Let_def defaultGameObject_def setPosition_def setRotation_def setScale_def
        setMaterial_def setCastsShadow_def fold_addChild Vec3_eta)

declare clone.simps(2) [simp del]

text \<open>Re-parenting a node changes the parent pointer of its base object and nothing else.\<close>

lemma setParentNode_base: "baseOf (setParentNode n p) = setParent (baseOf n) p"
  by (cases n) simp_all

lemma setParent_fields:
  "position (setParent g p) = position g" "rotation (setParent g p) = rotation g"
  "scale (setParent g p) = scale g" "material (setParent g p) = material g"
  "castsShadow (setParent g p) = castsShadow g" "updateAction (setParent g p) = updateAction g"
  "interactAction (setParent g p) = interactAction g" "parent (setParent g p) = p"
  by (simp_all add: setParent_def)

text \<open>
  A container with both callbacks and one cube below it that has both callbacks: the
  clone of the container has neither, the cloned cube has both.
\<close>

lemma clone_example:
  "clone (Container (GameObject \<lparr>x = 1, y = 2, z = 3\<rparr> \<lparr>x = 0, y = 90, z = 0\<rparr> \<lparr>x = 2, y = 2, z = 2\<rparr>
            defaultMaterial None (Some 1) (Some 2) False)
           [Leaf Cube (GameObject \<lparr>x = 0, y = 1, z = 0\<rparr> \<lparr>x = 0, y = 0, z = 0\<rparr> \<lparr>x = 1, y = 1, z = 1\<rparr>
              defaultMaterial
              (Some (GameObject \<lparr>x = 1, y = 2, z = 3\<rparr> \<lparr>x = 0, y = 90, z = 0\<rparr> \<lparr>x = 2, y = 2, z = 2\<rparr>
                 defaultMaterial None (Some 1) (Some 2) False))
              (Some 3) (Some 4) True)])
   = Container (GameObject \<lparr>x = 1, y = 2, z = 3\<rparr> \<lparr>x = 0, y = 90, z = 0\<rparr> \<lparr>x = 2, y = 2, z = 2\<rparr>
            defaultMaterial None None None False)
           [Leaf Cube (GameObject \<lparr>x = 0, y = 1, z = 0\<rparr> \<lparr>x = 0, y = 0, z = 0\<rparr> \<lparr>x = 1, y = 1, z = 1\<rparr>
              defaultMaterial
              (Some (GameObject \<lparr>x = 1, y = 2, z = 3\<rparr> \<lparr>x = 0, y = 90, z = 0\<rparr> \<lparr>x = 2, y = 2, z = 2\<rparr>
                 defaultMaterial None None None False))
              (Some 3) (Some 4) True)]"
  by (simp add: clone_Container setParent_def)

text \<open>
  C9. The clone of a container has the container's position, rotation, scale, material
  and \<open>castsShadow\<close> flag and neither callback, whatever callbacks the container had; its
  children are the clones of the container's children in the same order, each with the
  new container as parent. The clone of a leaf is a copy of the leaf and so keeps both
  callbacks.
\<close>

theorem clone_container_drops_callbacks:
  "position (baseOf (clone (Container obj children))) = position obj \<and>
   rotation (baseOf (clone (Container obj children))) = rotation obj \<and>
   scale (baseOf (clone (Container obj children))) = scale obj \<and>
   material (baseOf (clone (Container obj children))) = material obj \<and>
   castsShadow (baseOf (clone (Container obj children))) = castsShadow obj \<and>
   updateAction (baseOf (clone (Container obj children))) = None \<and>
   interactAction (baseOf (clone (Container obj children))) = None \<and>
   getChildren (clone (Container obj children))
     = map (\<lambda>child. setParentNode (clone child) (Some (baseOf (clone (Container obj children)))))
         children \<and>
   clone (Leaf k g) = Leaf k g \<and>
   updateAction (baseOf (clone (Leaf k g))) = updateAction g \<and>
   interactAction (baseOf (clone (Leaf k g))) = interactAction g"
  by (simp add: clone_Container)

section \<open>The interaction ray\<close>

lemma fold_over_concat: "fold f (concat xss) best = fold (\<lambda>xs. fold f xs) xss best"
  by (induction xss arbitrary: best) simp_all

lemma findClosestObject_leaf:
  "findClosestObject (Leaf k obj) best camX camY camZ dirX dirY dirZ
     = hitStep camX camY camZ dirX dirY dirZ obj best"
  by (cases best)
     (simp add: hitStep_def withinRadius_def rayT_def missSq_def Let_def power2_eq_square)

text \<open>The traversal of a subtree is the loop over its leaves in order.\<close>

lemma findClosestObject_leaves:
  "findClosestObject n best camX camY camZ dirX dirY dirZ
     = fold (hitStep camX camY camZ dirX dirY dirZ) (leaves n) best"
proof (induction n arbitrary: best)
  case (Leaf k obj)
  show ?case by (simp only: findClosestObject_leaf leaves.simps fold_simps id_apply comp_apply)
next
  case (Container obj children)
  have "fold (\<lambda>child best. findClosestObject child best camX camY camZ dirX dirY dirZ) children best
        = fold (\<lambda>child. fold (hitStep camX camY camZ dirX dirY dirZ) (leaves child)) children best"
    by (rule fold_cong) (auto simp: Container.IH)
  then show ?case
    by (simp add: fold_over_concat fold_map comp_def)
qed

lemma castRay_leaves:
  "castRay objects camX camY camZ dirX dirY dirZ
     = fold (hitStep camX camY camZ dirX dirY dirZ) (allLeaves objects) (10, None)"
  by (simp add: castRay_def allLeaves_def fold_over_concat fold_map comp_def findClosestObject_leaves)

lemma hitStep_fst_le: "fst (hitStep cx cy cz dx dy dz obj best) \<le> fst best"
  by (simp add: hitStep_def)

lemma fold_hitStep_fst_le:
  "fst (fold (hitStep cx cy cz dx dy dz) xs best) \<le> fst best"
proof (induction xs arbitrary: best)
  case Nil
  show ?case by simp
next
  case (Cons a xs)
  have "fst (fold (hitStep cx cy cz dx dy dz) xs (hitStep cx cy cz dx dy dz a best))
          \<le> fst (hitStep cx cy cz dx dy dz a best)"
    by (rule Cons.IH)
  also have "\<dots> \<le> fst best" by (rule hitStep_fst_le)
  finally show ?case by simp
qed

text \<open>After the loop \<open>closestDist\<close> is at most the \<open>t\<close> of any leaf within the radius.\<close>

lemma fold_hitStep_lower:
  assumes "obj \<in> set xs" and "withinRadius cx cy cz dx dy dz obj"
  shows "fst (fold (hitStep cx cy cz dx dy dz) xs best) \<le> rayT cx cy cz dx dy dz obj"
  using assms(1)
proof (induction xs arbitrary: best)
  case Nil
  then show ?case by simp
next
  case (Cons a xs)
  show ?case
  proof (cases "obj = a")
    case True
    have "fst (hitStep cx cy cz dx dy dz a best) \<le> rayT cx cy cz dx dy dz obj"
      using assms(2) True by (simp add: hitStep_def)
    with fold_hitStep_fst_le [of cx cy cz dx dy dz xs "hitStep cx cy cz dx dy dz a best"]
    show ?thesis by simp
  next
    case False
    with Cons.prems have "obj \<in> set xs" by simp
    then show ?thesis using Cons.IH by simp
  qed
qed

text \<open>The loop either leaves the pair as it was or ends on a leaf that beat it.\<close>

lemma fold_hitStep_result:
  "fold (hitStep cx cy cz dx dy dz) xs best = best \<or>
   (\<exists>obj \<in> set xs. withinRadius cx cy cz dx dy dz obj \<and>
      rayT cx cy cz dx dy dz obj < fst best \<and>
      fold (hitStep cx cy cz dx dy dz) xs best = (rayT cx cy cz dx dy dz obj, Some obj))"
proof (induction xs arbitrary: best)
  case Nil
  show ?case by simp
next
  case (Cons a xs)
  let ?b = "hitStep cx cy cz dx dy dz a best"
  have le: "fst ?b \<le> fst best" by (rule hitStep_fst_le)
  have step: "?b = best \<or> (withinRadius cx cy cz dx dy dz a \<and> rayT cx cy cz dx dy dz a < fst best
      \<and> ?b = (rayT cx cy cz dx dy dz a, Some a))"
    by (simp add: hitStep_def)
  from Cons.IH [of ?b] show ?case
  proof
    assume "fold (hitStep cx cy cz dx dy dz) xs ?b = ?b"
    with step show ?thesis by auto
  next
    assume "\<exists>obj \<in> set xs. withinRadius cx cy cz dx dy dz obj \<and>
      rayT cx cy cz dx dy dz obj < fst ?b \<and>
      fold (hitStep cx cy cz dx dy dz) xs ?b = (rayT cx cy cz dx dy dz obj, Some obj)"
    then obtain obj where "obj \<in> set xs" "withinRadius cx cy cz dx dy dz obj"
      "rayT cx cy cz dx dy dz obj < fst ?b"
      "fold (hitStep cx cy cz dx dy dz) xs ?b = (rayT cx cy cz dx dy dz obj, Some obj)"
      by blast
    with le show ?thesis by (intro disjI2 bexI [of _ obj]) auto
  qed
qed

lemma castRay_cases:
  "castRay objects cx cy cz dx dy dz = (10, None) \<or>
   (\<exists>obj \<in> set (allLeaves objects). withinRadius cx cy cz dx dy dz obj \<and>
      rayT cx cy cz dx dy dz obj < 10 \<and>
      castRay objects cx cy cz dx dy dz = (rayT cx cy cz dx dy dz obj, Some obj))"
  using fold_hitStep_result [of cx cy cz dx dy dz "allLeaves objects" "(10, None)"]
  by (simp add: castRay_leaves)

lemma castRay_selected:
  assumes "snd (castRay objects cx cy cz dx dy dz) = Some obj"
  shows "obj \<in> set (allLeaves objects)" "withinRadius cx cy cz dx dy dz obj"
    "rayT cx cy cz dx dy dz obj < 10"
    "fst (castRay objects cx cy cz dx dy dz) = rayT cx cy cz dx dy dz obj"
  using castRay_cases [of objects cx cy cz dx dy dz] assms by auto

lemma castRay_lower:
  assumes "obj \<in> set (allLeaves objects)" and "withinRadius cx cy cz dx dy dz obj"
  shows "fst (castRay objects cx cy cz dx dy dz) \<le> rayT cx cy cz dx dy dz obj"
  using fold_hitStep_lower [OF assms] by (simp add: castRay_leaves)

lemma castRay_None_iff:
  "snd (castRay objects cx cy cz dx dy dz) = None \<longleftrightarrow>
   \<not> (\<exists>obj \<in> set (allLeaves objects).
        withinRadius cx cy cz dx dy dz obj \<and> rayT cx cy cz dx dy dz obj < 10)"
proof
  assume none: "snd (castRay objects cx cy cz dx dy dz) = None"
  show "\<not> (\<exists>obj \<in> set (allLeaves objects).
        withinRadius cx cy cz dx dy dz obj \<and> rayT cx cy cz dx dy dz obj < 10)"
  proof
    assume "\<exists>obj \<in> set (allLeaves objects).
        withinRadius cx cy cz dx dy dz obj \<and> rayT cx cy cz dx dy dz obj < 10"
    then obtain obj where o: "obj \<in> set (allLeaves objects)" "withinRadius cx cy cz dx dy dz obj"
      "rayT cx cy cz dx dy dz obj < 10" by blast
    from castRay_lower [OF o(1,2)] o(3) have "fst (castRay objects cx cy cz dx dy dz) < 10" by simp
    with castRay_cases [of objects cx cy cz dx dy dz] none show False by auto
  qed
next
  assume "\<not> (\<exists>obj \<in> set (allLeaves objects).
        withinRadius cx cy cz dx dy dz obj \<and> rayT cx cy cz dx dy dz obj < 10)"
  with castRay_cases [of objects cx cy cz dx dy dz]
  show "snd (castRay objects cx cy cz dx dy dz) = None" by auto
qed

text \<open>Two root lists with the same leaves end on leaves with the same \<open>t\<close>.\<close>

lemma castRay_order:
  assumes sel: "snd (castRay objects cx cy cz dx dy dz) = Some obj"
    and same: "set (allLeaves objects') = set (allLeaves objects)"
  shows "\<exists>obj'. snd (castRay objects' cx cy cz dx dy dz) = Some obj' \<and>
           rayT cx cy cz dx dy dz obj' = rayT cx cy cz dx dy dz obj"
proof -
  note s = castRay_selected [OF sel]
  have "\<exists>a \<in> set (allLeaves objects'). withinRadius cx cy cz dx dy dz a \<and> rayT cx cy cz dx dy dz a < 10"
    using s(1,2,3) same by blast
  then have "snd (castRay objects' cx cy cz dx dy dz) \<noteq> None"
    by (simp add: castRay_None_iff)
  then obtain obj' where sel': "snd (castRay objects' cx cy cz dx dy dz) = Some obj'" by blast
  note s' = castRay_selected [OF sel']
  have "rayT cx cy cz dx dy dz obj \<le> rayT cx cy cz dx dy dz obj'"
    using castRay_lower [of obj' objects cx cy cz dx dy dz] s'(1,2) same s(4) by simp
  moreover have "rayT cx cy cz dx dy dz obj' \<le> rayT cx cy cz dx dy dz obj"
    using castRay_lower [of obj objects' cx cy cz dx dy dz] s(1,2) same s'(4) by simp
  ultimately show ?thesis using sel' by simp
qed

lemma checkInteraction_selected:
  "checkInteraction camera objects =
     (case selected camera objects of Some obj \<Rightarrow> interact obj | None \<Rightarrow> [])"
  by (simp add: checkInteraction_def selected_def castRay_def lookX_def lookY_def lookZ_def
        lookLength_def Let_def case_prod_beta)

text \<open>The example scenes, seen from the example camera.\<close>

lemma example_look:
  "cam_x exampleCamera = 0" "cam_y exampleCamera = 0" "cam_z exampleCamera = 0"
  "lookX exampleCamera = 0" "lookY exampleCamera = 0" "lookZ exampleCamera = - 1"
  by (simp_all add: lookX_def lookY_def lookZ_def lookLength_def exampleCamera_def)

lemma example_positions:
  "getRealPosition exampleLeaf = \<lparr>x = 0, y = 0, z = - 5\<rparr>"
  "getRealPosition exampleNear = \<lparr>x = 0, y = 0, z = - 3\<rparr>"
  "getRealPosition exampleFar = \<lparr>x = 0, y = 0, z = - 20\<rparr>"
  by (simp_all add: getRealPosition_def exampleLeaf_def exampleNear_def exampleFar_def
        exampleMid_def exampleRoot_def getPointInWorldSpace_root getPointInWorldSpace_child
        worldStep_def applyRotation_def Let_def)

lemma example_rays:
  "approach exampleCamera exampleLeaf = 5" "approach exampleCamera exampleNear = 3"
  "approach exampleCamera exampleFar = 20"
  "missSquared exampleCamera exampleLeaf = 0" "missSquared exampleCamera exampleNear = 0"
  "missSquared exampleCamera exampleFar = 0"
  by (simp_all add: approach_def missSquared_def rayT_def missSq_def example_look example_positions)

lemma example_leaves:
  "allLeaves exampleScene = [exampleLeaf, exampleNear]"
  "allLeaves exampleSceneReordered = [exampleNear, exampleLeaf]"
  "allLeaves [Leaf Cube exampleFar] = [exampleFar]"
  by (simp_all add: allLeaves_def exampleScene_def exampleSceneReordered_def)

lemma example_selected:
  "selected exampleCamera exampleScene = Some exampleNear"
  "selected exampleCamera exampleSceneReordered = Some exampleNear"
  "selected exampleCamera [Leaf Cube exampleFar] = None"
  using example_rays
  by (simp_all add: selected_def castRay_leaves example_leaves hitStep_def withinRadius_def
        approach_def missSquared_def)

text \<open>
  C7, as the specification states it, fails where two leaves share the minimal \<open>t\<close>.
  Looking along \<open>+ X\<close> from the origin, the leaves at \<open>(3, 0, - 1)\<close> and \<open>(3, 0, 1)\<close>
  both have \<open>t = 3\<close> and squared miss-distance \<open>1\<close>; the comparison
  \<open>t < closestDist\<close> is strict, so whichever of the two is visited first is selected.
\<close>

theorem tie_resolved_by_traversal_order:
  "approach exampleAhead exampleLeft = 3 \<and> approach exampleAhead exampleRight = 3 \<and>
   missSquared exampleAhead exampleLeft = 1 \<and> missSquared exampleAhead exampleRight = 1 \<and>
   selected exampleAhead [Leaf Cube exampleLeft, Leaf Cube exampleRight] = Some exampleLeft \<and>
   selected exampleAhead [Leaf Cube exampleRight, Leaf Cube exampleLeft] = Some exampleRight \<and>
   exampleLeft \<noteq> exampleRight"
proof -
  have look: "cam_x exampleAhead = 0" "cam_y exampleAhead = 0" "cam_z exampleAhead = 0"
    "lookX exampleAhead = 1" "lookY exampleAhead = 0" "lookZ exampleAhead = 0"
    by (simp_all add: lookX_def lookY_def lookZ_def lookLength_def exampleAhead_def)
  have pos: "getRealPosition exampleLeft = \<lparr>x = 3, y = 0, z = - 1\<rparr>"
    "getRealPosition exampleRight = \<lparr>x = 3, y = 0, z = 1\<rparr>"
    by (simp_all add: getRealPosition_def exampleLeft_def exampleRight_def)
  have rays: "approach exampleAhead exampleLeft = 3" "approach exampleAhead exampleRight = 3"
    "missSquared exampleAhead exampleLeft = 1" "missSquared exampleAhead exampleRight = 1"
    by (simp_all add: approach_def missSquared_def rayT_def missSq_def look pos)
  have lv: "allLeaves [Leaf Cube exampleLeft, Leaf Cube exampleRight] = [exampleLeft, exampleRight]"
    "allLeaves [Leaf Cube exampleRight, Leaf Cube exampleLeft] = [exampleRight, exampleLeft]"
    by (simp_all add: allLeaves_def)
  have sel: "selected exampleAhead [Leaf Cube exampleLeft, Leaf Cube exampleRight] = Some exampleLeft"
    "selected exampleAhead [Leaf Cube exampleRight, Leaf Cube exampleLeft] = Some exampleRight"
    using rays
    by (simp_all add: selected_def castRay_leaves lv hitStep_def withinRadius_def
          approach_def missSquared_def)
  have ne: "exampleLeft \<noteq> exampleRight"
    by (simp add: exampleLeft_def exampleRight_def)
  from rays sel ne show ?thesis by blast
qed

text \<open>
  C7, amended. When the ray of \<open>checkInteraction\<close> selects a node, \<open>interact\<close> is called on
  it, and the node is a leaf with positive \<open>t\<close> and miss-distance below \<open>1.5\<close> whose
  \<open>t\<close> is minimal among all such leaves of the whole root list. On any root list with
  the same leaves, in whatever order, a node with the same \<open>t\<close> is selected, and it is the
  same node when no other such leaf has this \<open>t\<close>.
\<close>

theorem nearest_leaf_is_selected:
  assumes sel: "selected camera objects = Some obj"
  shows "checkInteraction camera objects = interact obj \<and>
    obj \<in> set (allLeaves objects) \<and>
    0 < approach camera obj \<and> missSquared camera obj < 1.5\<^sup>2 \<and>
    (\<forall>a \<in> set (allLeaves objects).
       0 < approach camera a \<and> missSquared camera a < 1.5\<^sup>2 \<longrightarrow>
       approach camera obj \<le> approach camera a) \<and>
    (\<forall>objects'. set (allLeaves objects') = set (allLeaves objects) \<longrightarrow>
       (\<exists>obj'. selected camera objects' = Some obj' \<and>
          approach camera obj' = approach camera obj) \<and>
       ((\<forall>a \<in> set (allLeaves objects).
           0 < approach camera a \<and> missSquared camera a < 1.5\<^sup>2 \<and>
           approach camera a = approach camera obj \<longrightarrow> a = obj) \<longrightarrow>
        selected camera objects' = Some obj))"
proof -
  let ?cx = "cam_x camera" and ?cy = "cam_y camera" and ?cz = "cam_z camera"
  let ?dx = "lookX camera" and ?dy = "lookY camera" and ?dz = "lookZ camera"
  have sel': "snd (castRay objects ?cx ?cy ?cz ?dx ?dy ?dz) = Some obj"
    using sel by (simp add: selected_def)
  note s = castRay_selected [OF sel']
  have call: "checkInteraction camera objects = interact obj"
    using sel by (simp add: checkInteraction_selected)
  have own: "obj \<in> set (allLeaves objects)" "0 < approach camera obj"
    "missSquared camera obj < 1.5\<^sup>2"
    using s(1,2) by (simp_all add: withinRadius_def approach_def missSquared_def)
  have least: "approach camera obj \<le> approach camera a"
    if "a \<in> set (allLeaves objects)" "0 < approach camera a \<and> missSquared camera a < 1.5\<^sup>2" for a
  proof -
    have "withinRadius ?cx ?cy ?cz ?dx ?dy ?dz a"
      using that(2) by (simp add: withinRadius_def approach_def missSquared_def)
    from castRay_lower [OF that(1) this] s(4) show ?thesis
      by (simp add: approach_def)
  qed
  have order: "(\<exists>obj'. selected camera objects' = Some obj' \<and>
          approach camera obj' = approach camera obj) \<and>
       ((\<forall>a \<in> set (allLeaves objects).
           0 < approach camera a \<and> missSquared camera a < 1.5\<^sup>2 \<and>
           approach camera a = approach camera obj \<longrightarrow> a = obj) \<longrightarrow>
        selected camera objects' = Some obj)"
    if same: "set (allLeaves objects') = set (allLeaves objects)" for objects'
  proof -
    from castRay_order [OF sel' same] obtain obj'
      where o: "snd (castRay objects' ?cx ?cy ?cz ?dx ?dy ?dz) = Some obj'"
        "rayT ?cx ?cy ?cz ?dx ?dy ?dz obj' = rayT ?cx ?cy ?cz ?dx ?dy ?dz obj"
      by blast
    note s' = castRay_selected [OF o(1)]
    have 1: "selected camera objects' = Some obj'" "approach camera obj' = approach camera obj"
      using o by (simp_all add: selected_def approach_def)
    have 2: "obj' \<in> set (allLeaves objects)" "0 < approach camera obj'"
      "missSquared camera obj' < 1.5\<^sup>2"
      using s'(1,2) same by (simp_all add: withinRadius_def approach_def missSquared_def)
    show ?thesis using 1 2 by blast
  qed
  from call own least order show ?thesis by blast
qed

theorem nearest_leaf_is_selected_witness:
  "selected exampleCamera exampleScene = Some exampleNear \<and>
   checkInteraction exampleCamera exampleScene = interact exampleNear \<and>
   exampleNear \<in> set (allLeaves exampleScene) \<and>
   exampleLeaf \<in> set (allLeaves exampleScene) \<and>
   0 < approach exampleCamera exampleLeaf \<and>
   missSquared exampleCamera exampleLeaf < 1.5\<^sup>2 \<and>
   approach exampleCamera exampleNear \<le> approach exampleCamera exampleLeaf \<and>
   set (allLeaves exampleSceneReordered) = set (allLeaves exampleScene) \<and>
   selected exampleCamera exampleSceneReordered = Some exampleNear"
proof -
  have h: "selected exampleCamera exampleScene = Some exampleNear"
    by (rule example_selected(1))
  have first: "exampleLeaf \<in> set (allLeaves exampleScene)"
    "0 < approach exampleCamera exampleLeaf \<and> missSquared exampleCamera exampleLeaf < 1.5\<^sup>2"
    by (simp_all add: example_leaves example_rays)
  have same: "set (allLeaves exampleSceneReordered) = set (allLeaves exampleScene)"
    by (auto simp: example_leaves)
  have only: "\<forall>a \<in> set (allLeaves exampleScene).
      0 < approach exampleCamera a \<and> missSquared exampleCamera a < 1.5\<^sup>2 \<and>
      approach exampleCamera a = approach exampleCamera exampleNear \<longrightarrow> a = exampleNear"
    by (simp add: example_leaves example_rays)
  note t = nearest_leaf_is_selected [OF h]
  from t have "checkInteraction exampleCamera exampleScene = interact exampleNear"
    and "exampleNear \<in> set (allLeaves exampleScene)" by blast+
  moreover from t first
  have "approach exampleCamera exampleNear \<le> approach exampleCamera exampleLeaf" by blast
  moreover from t same only
  have "selected exampleCamera exampleSceneReordered = Some exampleNear" by blast
  ultimately show ?thesis using h first same by blast
qed

lemma radius_squared: "(1.5::real)\<^sup>2 = 2.25"
  by (simp add: power2_eq_square)

text \<open>
  C10. A node that the ray of \<open>checkInteraction\<close> selects has \<open>0 < t < 10\<close> and a
  squared miss-distance below \<open>2.25\<close>, the square of \<open>1.5\<close>. A node is selected exactly
  when some leaf is within both bounds; the loop starts from the distance \<open>10\<close> and no
  object; and when nothing is selected \<open>checkInteraction\<close> makes no handler call.
\<close>

theorem interaction_reach_limits:
  "(selected camera objects = Some obj \<longrightarrow>
      0 < approach camera obj \<and> approach camera obj < 10 \<and> missSquared camera obj < 2.25) \<and>
   (selected camera objects = None \<longleftrightarrow>
      \<not> (\<exists>a \<in> set (allLeaves objects).
            0 < approach camera a \<and> approach camera a < 10 \<and> missSquared camera a < 2.25)) \<and>
   castRay [] cx cy cz dx dy dz = (10, None) \<and>
   (selected camera objects = None \<longrightarrow> checkInteraction camera objects = [])"
proof -
  let ?cx = "cam_x camera" and ?cy = "cam_y camera" and ?cz = "cam_z camera"
  let ?dx = "lookX camera" and ?dy = "lookY camera" and ?dz = "lookZ camera"
  have bounds: "0 < approach camera obj \<and> approach camera obj < 10 \<and> missSquared camera obj < 2.25"
    if "selected camera objects = Some obj"
  proof -
    from that have "snd (castRay objects ?cx ?cy ?cz ?dx ?dy ?dz) = Some obj"
      by (simp add: selected_def)
    from castRay_selected(2,3) [OF this] show ?thesis
      unfolding withinRadius_def approach_def missSquared_def radius_squared by blast
  qed
  have none: "selected camera objects = None \<longleftrightarrow>
      \<not> (\<exists>a \<in> set (allLeaves objects).
            0 < approach camera a \<and> approach camera a < 10 \<and> missSquared camera a < 2.25)"
    unfolding selected_def castRay_None_iff withinRadius_def approach_def missSquared_def
      radius_squared
    by blast
  have start: "castRay [] cx cy cz dx dy dz = (10, None)"
    by (simp add: castRay_def)
  have quiet: "checkInteraction camera objects = []" if "selected camera objects = None"
    using that by (simp add: checkInteraction_selected)
  from bounds none start quiet show ?thesis by blast
qed

theorem interaction_reach_limits_witness:
  "selected exampleCamera exampleScene = Some exampleNear \<and>
   0 < approach exampleCamera exampleNear \<and> approach exampleCamera exampleNear < 10 \<and>
   missSquared exampleCamera exampleNear < 2.25 \<and>
   selected exampleCamera [Leaf Cube exampleFar] = None \<and>
   approach exampleCamera exampleFar = 20 \<and>
   checkInteraction exampleCamera [Leaf Cube exampleFar] = []"
proof -
  have h1: "selected exampleCamera exampleScene = Some exampleNear"
    by (rule example_selected(1))
  have h2: "selected exampleCamera [Leaf Cube exampleFar] = None"
    by (rule example_selected(3))
  from interaction_reach_limits [of exampleCamera exampleScene exampleNear] h1
  have "0 < approach exampleCamera exampleNear \<and> approach exampleCamera exampleNear < 10 \<and>
      missSquared exampleCamera exampleNear < 2.25" by blast
  moreover from interaction_reach_limits [of exampleCamera "[Leaf Cube exampleFar]"] h2
  have "checkInteraction exampleCamera [Leaf Cube exampleFar] = []" by blast
  ultimately show ?thesis using h1 h2 example_rays(3) by blast
qed

end
